theory Spec2Isabelle
  imports Complex_Main
begin

section \<open>Student loan repayment simulation\<close>

text \<open>
  A shallow embedding of the four modules \<^verbatim>\<open>helpers.py\<close>, \<^verbatim>\<open>calculations.py\<close>,
  \<^verbatim>\<open>annual_monthly_transformers.py\<close> and \<^verbatim>\<open>simulation.py\<close>.

  Conventions of the embedding:
  \<^item> Python numbers (\<^verbatim>\<open>int\<close> salaries, \<^verbatim>\<open>float\<close> rates and balances) are \<^typ>\<open>real\<close>:
    the arithmetic is exact, rounding of binary floating point is not modelled.
    Month numbers, lengths and the horizon are Python \<^verbatim>\<open>int\<close>s and are \<^typ>\<open>int\<close> here.
  \<^item> A raised exception is the \<open>Inl\<close> branch of a sum; the result is the \<open>Inr\<close> branch.
  \<^item> \<^verbatim>\<open>arr += ...\<close> on a list extends the caller's object in place. A function that
    does so returns the extended list next to its result.
\<close>

subsection \<open>Errors and month references\<close>

datatype error = ValueError | IndexError

text \<open>\<^verbatim>\<open>Union[str, int]\<close>: a month is given by name or by number.\<close>

datatype month_ref = MonthName string | MonthNumber int

subsection \<open>helpers.py\<close>

definition ascii_upper :: string where
  "ascii_upper = ''ABCDEFGHIJKLMNOPQRSTUVWXYZ''"

definition ascii_lower :: string where
  "ascii_lower = ''abcdefghijklmnopqrstuvwxyz''"

definition lower_char :: "char \<Rightarrow> char" where
  "lower_char c = (case map_of (zip ascii_upper ascii_lower) c of Some l \<Rightarrow> l | None \<Rightarrow> c)"

definition month_names :: "string list" where
  "month_names = [''january'', ''february'', ''march'', ''april'', ''may'', ''june'',
                  ''july'', ''august'', ''september'', ''october'', ''november'', ''december'']"

fun index_of :: "'a list \<Rightarrow> 'a \<Rightarrow> nat option" where
  "index_of [] x = None"
| "index_of (y # ys) x = (if y = x then Some 0 else map_option Suc (index_of ys x))"

text \<open>
  \<^verbatim>\<open>datetime.strptime(s, "%B").month\<close> of the standard library, in the English locale:
  the whole string has to be a full month name, letter case is ignored, anything else
  raises \<^verbatim>\<open>ValueError\<close>.
\<close>

definition strptime_B_month :: "string \<Rightarrow> error + int" where
  "strptime_B_month s =
     (case index_of month_names (map lower_char s) of
        None \<Rightarrow> Inl ValueError
      | Some i \<Rightarrow> Inr (int i + 1))"

text \<open>The two \<^verbatim>\<open>isinstance(_, str)\<close> branches of \<^verbatim>\<open>calculate_months_difference\<close>.\<close>

definition month_number :: "month_ref \<Rightarrow> error + int" where
  "month_number r = (case r of MonthName s \<Rightarrow> strptime_B_month s | MonthNumber n \<Rightarrow> Inr n)"

definition calculate_months_difference :: "month_ref \<Rightarrow> month_ref \<Rightarrow> error + int" where
  "calculate_months_difference current_month target_month =
     (case month_number current_month of
        Inl e \<Rightarrow> Inl e
      | Inr c \<Rightarrow>
          (case month_number target_month of
             Inl e \<Rightarrow> Inl e
           | Inr t \<Rightarrow>
               (let months_remaining = (t - c) mod 12
                in Inr (if months_remaining = 0 then months_remaining + 12
                        else months_remaining))))"

text \<open>
  \<^verbatim>\<open>extrapolate_array\<close>: \<^verbatim>\<open>arr[-1]\<close> raises \<^verbatim>\<open>IndexError\<close> on an empty list, and is only
  evaluated under the guard \<^verbatim>\<open>len(arr) < length\<close>. The list returned is the caller's
  list, extended in place.
\<close>

definition extrapolate_array :: "'a list \<Rightarrow> int \<Rightarrow> error + 'a list" where
  "extrapolate_array arr len =
     (if int (length arr) < len
      then (case arr of
              [] \<Rightarrow> Inl IndexError
            | _ # _ \<Rightarrow> Inr (arr @ replicate (nat (len - int (length arr) + 1)) (last arr)))
      else Inr arr)"

subsection \<open>calculations.py\<close>

definition LOWER_INCOME_THRESHOLD :: real where
  "LOWER_INCOME_THRESHOLD = 27295"

definition UPPER_INCOME_THRESHOLD :: real where
  "UPPER_INCOME_THRESHOLD = 49130"

definition INTEREST_PREMIUM :: real where
  "INTEREST_PREMIUM = 3"

definition STUDENT_TAX :: real where
  "STUDENT_TAX = 9"

definition calculate_annual_interest_rate :: "real \<Rightarrow> real \<Rightarrow> real option \<Rightarrow> real" where
  "calculate_annual_interest_rate base_salary rpi max_interest_cap =
     (let interest_rate = rpi;
          interest_rate =
            (if base_salary > LOWER_INCOME_THRESHOLD
             then interest_rate
                  + INTEREST_PREMIUM
                    * min 1 ((base_salary - LOWER_INCOME_THRESHOLD)
                             / (UPPER_INCOME_THRESHOLD - LOWER_INCOME_THRESHOLD))
             else interest_rate)
      in (case max_interest_cap of
            None \<Rightarrow> interest_rate
          | Some cap \<Rightarrow> min interest_rate cap))"

definition calculate_monthly_installment :: "real \<Rightarrow> real" where
  "calculate_monthly_installment monthly_salary =
     (let taxable_salary = max 0 (monthly_salary - LOWER_INCOME_THRESHOLD / 12)
      in taxable_salary * STUDENT_TAX / 100)"

definition calculate_monthly_interest :: "real \<Rightarrow> real \<Rightarrow> real" where
  "calculate_monthly_interest total_balance monthly_interest =
     total_balance * monthly_interest / 100"

subsection \<open>annual\_monthly\_transformers.py\<close>

definition RELIEF_PERDIOD :: int where
  "RELIEF_PERDIOD = 30"

text \<open>
  The loop \<^verbatim>\<open>for i in range(RELIEF_PERDIOD + 1)\<close> of \<^verbatim>\<open>get_monthly_interest_rate_array\<close>,
  over the list of indices; a subscript out of range raises \<^verbatim>\<open>IndexError\<close>.
\<close>

fun annual_rates_loop :: "real list \<Rightarrow> real list \<Rightarrow> nat list \<Rightarrow> real list \<Rightarrow> error + real list" where
  "annual_rates_loop annual_salaries annual_rpis [] annual_interest_rates =
     Inr annual_interest_rates"
| "annual_rates_loop annual_salaries annual_rpis (i # is) annual_interest_rates =
     (if i < length annual_salaries \<and> i < length annual_rpis
      then annual_rates_loop annual_salaries annual_rpis is
             (annual_interest_rates
              @ [calculate_annual_interest_rate (annual_salaries ! i) (annual_rpis ! i) None])
      else Inl IndexError)"

text \<open>
  \<^verbatim>\<open>months * [first / 12]\<close> followed by \<^verbatim>\<open>12 * [v / 12]\<close> for every \<^verbatim>\<open>v\<close> of
  \<^verbatim>\<open>values[1:]\<close>: the layout shared by the monthly producers.
\<close>

definition monthly_layout :: "int \<Rightarrow> real \<Rightarrow> real list \<Rightarrow> real list" where
  "monthly_layout months first rest =
     replicate (nat months) (first / 12) @ concat (map (\<lambda>v. replicate 12 (v / 12)) rest)"

text \<open>
  Returns the monthly rates together with the two argument lists as
  \<^verbatim>\<open>extrapolate_array\<close> leaves them.
\<close>

definition get_monthly_interest_rate_array ::
  "real list \<Rightarrow> real list \<Rightarrow> month_ref \<Rightarrow> error + (real list \<times> real list \<times> real list)" where
  "get_monthly_interest_rate_array annual_salaries annual_rpis current_month =
     (case extrapolate_array annual_salaries (RELIEF_PERDIOD + 1) of
        Inl e \<Rightarrow> Inl e
      | Inr annual_salaries' \<Rightarrow>
     (case extrapolate_array annual_rpis (RELIEF_PERDIOD + 1) of
        Inl e \<Rightarrow> Inl e
      | Inr annual_rpis' \<Rightarrow>
     (case annual_rates_loop annual_salaries' annual_rpis'
             [0 ..< nat (RELIEF_PERDIOD + 1)] [] of
        Inl e \<Rightarrow> Inl e
      | Inr annual_interest_rates \<Rightarrow>
     (case calculate_months_difference current_month (MonthName ''september'') of
        Inl e \<Rightarrow> Inl e
      | Inr months_to_sept \<Rightarrow>
     (case annual_interest_rates of
        [] \<Rightarrow> Inl IndexError
      | r0 # rest \<Rightarrow>
          Inr (monthly_layout months_to_sept r0 rest, annual_salaries', annual_rpis'))))))"

text \<open>
  Returns the monthly salaries together with \<^verbatim>\<open>annual_salaries\<close> as the in-place
  \<^verbatim>\<open>+=\<close> leaves it.
\<close>

definition get_monthly_salary_array ::
  "real list \<Rightarrow> month_ref \<Rightarrow> month_ref \<Rightarrow> error + (real list \<times> real list)" where
  "get_monthly_salary_array annual_salaries current_month salary_revision_month =
     (case (if int (length annual_salaries) < RELIEF_PERDIOD + 1
            then (case annual_salaries of
                    [] \<Rightarrow> Inl IndexError
                  | _ # _ \<Rightarrow>
                      Inr (annual_salaries
                           @ replicate (nat (RELIEF_PERDIOD - int (length annual_salaries) + 1))
                               (last annual_salaries)))
            else Inr annual_salaries) of
        Inl e \<Rightarrow> Inl e
      | Inr annual_salaries' \<Rightarrow>
     (case calculate_months_difference current_month salary_revision_month of
        Inl e \<Rightarrow> Inl e
      | Inr months_to_pay_review \<Rightarrow>
     (case annual_salaries' of
        [] \<Rightarrow> Inl IndexError
      | s0 # rest \<Rightarrow>
          Inr (monthly_layout months_to_pay_review s0 rest, annual_salaries'))))"

subsection \<open>simulation.py\<close>

text \<open>The variables the loop of \<^verbatim>\<open>simulate_repayment\<close> updates.\<close>

record sim_state =
  loan_outstanding :: real
  monthly_repayments :: "real list"
  monthly_interest :: "real list"
  monthly_balance :: "real list"

text \<open>
  One pass of the loop body for month \<open>i\<close>. The discretionary repayments are a
  dictionary from month index to amount; only the keys \<open>0, 1, ...\<close> of
  \<^verbatim>\<open>range(months_to_relief)\<close> are ever looked up.
\<close>

definition sim_step ::
  "real list \<Rightarrow> real list \<Rightarrow> (nat \<rightharpoonup> real) \<Rightarrow> nat \<Rightarrow> sim_state \<Rightarrow> error + sim_state" where
  "sim_step monthly_salaries monthly_interest_rates discretionary_repayments i st =
     (if i < length monthly_interest_rates \<and> i < length monthly_salaries
      then
        (let interest = calculate_monthly_interest (loan_outstanding st)
                          (monthly_interest_rates ! i);
             installment = calculate_monthly_installment (monthly_salaries ! i);
             installment = (case discretionary_repayments i of
                              Some extra \<Rightarrow> installment + extra
                            | None \<Rightarrow> installment);
             repayment = min installment (loan_outstanding st + interest);
             balance = loan_outstanding st + interest - repayment
         in Inr \<lparr> loan_outstanding = balance,
                  monthly_repayments = monthly_repayments st @ [repayment],
                  monthly_interest = monthly_interest st @ [interest],
                  monthly_balance = monthly_balance st @ [balance] \<rparr>)
      else Inl IndexError)"

fun sim_loop ::
  "real list \<Rightarrow> real list \<Rightarrow> (nat \<rightharpoonup> real) \<Rightarrow> nat list \<Rightarrow> sim_state \<Rightarrow> error + sim_state" where
  "sim_loop monthly_salaries monthly_interest_rates discretionary_repayments [] st = Inr st"
| "sim_loop monthly_salaries monthly_interest_rates discretionary_repayments (i # is) st =
     (case sim_step monthly_salaries monthly_interest_rates discretionary_repayments i st of
        Inl e \<Rightarrow> Inl e
      | Inr st' \<Rightarrow>
          sim_loop monthly_salaries monthly_interest_rates discretionary_repayments is st')"

text \<open>
  \<^verbatim>\<open>simulate_repayment\<close>. The salary list handed to
  \<^verbatim>\<open>get_monthly_interest_rate_array\<close> is the one \<^verbatim>\<open>get_monthly_salary_array\<close> has
  already extended. The result is the triple
  \<^verbatim>\<open>(monthly_repayments, monthly_interest, monthly_balance)\<close>.
\<close>

definition simulate_repayment ::
  "real \<Rightarrow> real list \<Rightarrow> real list \<Rightarrow> month_ref \<Rightarrow> int \<Rightarrow> (nat \<rightharpoonup> real)
     \<Rightarrow> error + (real list \<times> real list \<times> real list)" where
  "simulate_repayment loan annual_rpis annual_salaries current_month months_to_relief
       discretionary_repayments =
     (case get_monthly_salary_array annual_salaries current_month (MonthName ''april'') of
        Inl e \<Rightarrow> Inl e
      | Inr (monthly_salaries, annual_salaries') \<Rightarrow>
     (case get_monthly_interest_rate_array annual_salaries' annual_rpis current_month of
        Inl e \<Rightarrow> Inl e
      | Inr (monthly_interest_rates, _, _) \<Rightarrow>
     (case sim_loop monthly_salaries monthly_interest_rates discretionary_repayments
             [0 ..< nat months_to_relief]
             \<lparr> loan_outstanding = loan, monthly_repayments = [],
               monthly_interest = [], monthly_balance = [] \<rparr> of
        Inl e \<Rightarrow> Inl e
      | Inr st \<Rightarrow> Inr (monthly_repayments st, monthly_interest st, monthly_balance st))))"

subsection \<open>Notions used to state the properties\<close>

text \<open>A valid month reference: a full month name in any letter case, or a number from 1 to 12.\<close>

definition valid_month :: "month_ref \<Rightarrow> bool" where
  "valid_month r =
     (case r of
        MonthName s \<Rightarrow> map lower_char s \<in> set month_names
      | MonthNumber n \<Rightarrow> 1 \<le> n \<and> n \<le> 12)"

text \<open>
  The number a valid month reference stands for: a full month name, in any letter case,
  stands for its place in the calendar, and a number from 1 to 12 stands for itself.
\<close>

definition month_table :: "(string \<times> int) list" where
  "month_table =
     [(''january'', 1), (''february'', 2), (''march'', 3), (''april'', 4), (''may'', 5),
      (''june'', 6), (''july'', 7), (''august'', 8), (''september'', 9), (''october'', 10),
      (''november'', 11), (''december'', 12)]"

definition month_denotes :: "month_ref \<Rightarrow> int \<Rightarrow> bool" where
  "month_denotes r n =
     (case r of
        MonthName s \<Rightarrow> (map lower_char s, n) \<in> set month_table
      | MonthNumber k \<Rightarrow> k = n \<and> 1 \<le> n \<and> n \<le> 12)"

text \<open>The balance month \<open>i\<close> starts from: the initial loan, or the balance recorded for month \<open>i - 1\<close>.\<close>

definition balance_before :: "real \<Rightarrow> real list \<Rightarrow> nat \<Rightarrow> real" where
  "balance_before loan balances i = (if i = 0 then loan else balances ! (i - 1))"

text \<open>The discretionary amount of month \<open>i\<close>, zero when the dictionary has no such key.\<close>

definition discretionary :: "(nat \<rightharpoonup> real) \<Rightarrow> nat \<Rightarrow> real" where
  "discretionary d i = (case d i of Some extra \<Rightarrow> extra | None \<Rightarrow> 0)"

section \<open>Helper functions\<close>

subsection \<open>Month references\<close>

lemma index_of_mem: "x \<in> set xs \<Longrightarrow> \<exists>i. index_of xs x = Some i \<and> i < length xs"
  by (induction xs) auto

lemma month_number_valid:
  assumes "valid_month r"
  shows "\<exists>n. month_number r = Inr n \<and> 1 \<le> n \<and> n \<le> 12"
proof (cases r)
  case (MonthName s)
  with assms have "map lower_char s \<in> set month_names"
    by (simp add: valid_month_def)
  from index_of_mem [OF this] obtain i
    where i: "index_of month_names (map lower_char s) = Some i" "i < length month_names"
    by blast
  have "length month_names = 12" by (simp add: month_names_def)
  with i MonthName show ?thesis
    by (simp add: month_number_def strptime_B_month_def)
next
  case (MonthNumber n)
  with assms show ?thesis by (simp add: valid_month_def month_number_def)
qed

lemma month_number_examples:
  "month_number (MonthName ''September'') = Inr 9"
  "month_number (MonthName ''april'') = Inr 4"
  "month_number (MonthName ''Sept'') = Inl ValueError"
  "month_number (MonthNumber 4) = Inr 4"
  by (simp_all add: month_number_def strptime_B_month_def month_names_def lower_char_def
      ascii_upper_def ascii_lower_def)

lemma months_difference_range:
  assumes "month_number c = Inr cn" "month_number t = Inr tn"
  shows "\<exists>d. calculate_months_difference c t = Inr d \<and> 1 \<le> d \<and> d \<le> 12
            \<and> d = (if (tn - cn) mod 12 = 0 then 12 else (tn - cn) mod 12)"
proof -
  have "0 \<le> (tn - cn) mod 12" "(tn - cn) mod 12 < 12" by simp_all
  then show ?thesis using assms
    by (auto simp: calculate_months_difference_def Let_def)
qed

lemma months_difference_valid:
  assumes "valid_month c" "valid_month t"
  shows "\<exists>d. calculate_months_difference c t = Inr d \<and> 1 \<le> d \<and> d \<le> 12"
proof -
  from month_number_valid [OF assms(1)] obtain cn where "month_number c = Inr cn" by blast
  moreover from month_number_valid [OF assms(2)] obtain tn where "month_number t = Inr tn"
    by blast
  ultimately show ?thesis using months_difference_range by blast
qed

lemma valid_september: "valid_month (MonthName ''september'')"
  by (simp add: valid_month_def month_names_def lower_char_def ascii_upper_def ascii_lower_def)

lemma valid_april: "valid_month (MonthName ''april'')"
  by (simp add: valid_month_def month_names_def lower_char_def ascii_upper_def ascii_lower_def)

lemma valid_number_1: "valid_month (MonthNumber 1)"
  by (simp add: valid_month_def)

lemma month_table_checked:
  "list_all (\<lambda>(l, n). index_of month_names l = Some (nat (n - 1)) \<and> 1 \<le> n \<and> n \<le> 12)
     month_table"
  by code_simp

lemma month_table_index:
  assumes "(l, n) \<in> set month_table"
  shows "index_of month_names l = Some (nat (n - 1)) \<and> 1 \<le> n \<and> n \<le> 12"
  using month_table_checked assms unfolding list_all_iff by blast

lemma month_table_fst: "map fst month_table = month_names"
  by (simp add: month_table_def month_names_def)

lemma month_table_names: "(\<exists>n. (l, n) \<in> set month_table) \<longleftrightarrow> l \<in> set month_names"
proof -
  have "l \<in> set (map fst month_table) \<longleftrightarrow> (\<exists>n. (l, n) \<in> set month_table)"
    by force
  then show ?thesis by (simp only: month_table_fst)
qed

lemma strptime_B_month_table:
  assumes "(map lower_char s, n) \<in> set month_table"
  shows "strptime_B_month s = Inr n \<and> 1 \<le> n \<and> n \<le> 12"
proof -
  from month_table_index [OF assms]
  have i: "index_of month_names (map lower_char s) = Some (nat (n - 1))"
    and r: "1 \<le> n" "n \<le> 12" by blast+
  from r have "int (nat (n - 1)) + 1 = n" by simp
  with i r show ?thesis by (simp only: strptime_B_month_def option.case)
qed

lemma month_denotes_number:
  assumes "month_denotes r n"
  shows "month_number r = Inr n \<and> 1 \<le> n \<and> n \<le> 12"
proof (cases r)
  case (MonthName s)
  with assms have "(map lower_char s, n) \<in> set month_table"
    by (simp only: month_denotes_def month_ref.case)
  from strptime_B_month_table [OF this] MonthName show ?thesis
    by (simp only: month_number_def month_ref.case)
next
  case (MonthNumber k)
  with assms show ?thesis by (simp add: month_denotes_def month_number_def)
qed

lemma valid_month_denotes: "valid_month r \<longleftrightarrow> (\<exists>n. month_denotes r n)"
proof (cases r)
  case (MonthName s)
  then show ?thesis
    by (simp only: valid_month_def month_denotes_def month_ref.case
        month_table_names [of "map lower_char s"])
next
  case (MonthNumber k)
  then show ?thesis by (simp add: valid_month_def month_denotes_def)
qed

lemma month_denotes_valid: "month_denotes r n \<Longrightarrow> valid_month r"
  using valid_month_denotes by blast

lemma month_denotes_unique:
  assumes "month_denotes r n" "month_denotes r n'"
  shows "n = n'"
proof -
  from month_denotes_number [OF assms(1)] month_denotes_number [OF assms(2)]
  have "(Inr n :: error + int) = Inr n'" by simp
  then show ?thesis by simp
qed

text \<open>
  Claim C8. Let \<open>current\<close> and \<open>target\<close> be valid month references (a full month name
  or a number from 1 to 12) standing for the month numbers \<open>c\<close> and \<open>t\<close>. Then
  \<open>calculate_months_difference\<close> normalises them to \<open>c\<close> and \<open>t\<close> and returns
  \<open>(t - c) mod 12\<close> with a zero result replaced by 12. The difference of a month to
  itself is 12, never 0, and the result always lies between 1 and 12.
\<close>

theorem months_difference_spec:
  assumes "month_denotes current c" "month_denotes target t"
  shows "calculate_months_difference current target
           = Inr (if (t - c) mod 12 = 0 then 12 else (t - c) mod 12)
       \<and> calculate_months_difference current current = Inr 12
       \<and> (\<exists>d. calculate_months_difference current target = Inr d \<and> 1 \<le> d \<and> d \<le> 12)
       \<and> month_number current = Inr c \<and> month_number target = Inr t
       \<and> valid_month current \<and> valid_month target"
proof -
  from month_denotes_number [OF assms(1)] have cn: "month_number current = Inr c" by blast
  from month_denotes_number [OF assms(2)] have tn: "month_number target = Inr t" by blast
  from months_difference_range [OF cn tn] have d:
    "calculate_months_difference current target
       = Inr (if (t - c) mod 12 = 0 then 12 else (t - c) mod 12)"
    "\<exists>d. calculate_months_difference current target = Inr d \<and> 1 \<le> d \<and> d \<le> 12"
    by auto
  from months_difference_range [OF cn cn]
  have s: "calculate_months_difference current current = Inr 12" by auto
  from d s cn tn month_denotes_valid [OF assms(1)] month_denotes_valid [OF assms(2)]
  show ?thesis by blast
qed

theorem months_difference_spec_witness:
  "month_denotes (MonthName ''January'') 1 \<and> month_denotes (MonthNumber 9) 9
   \<and> calculate_months_difference (MonthName ''January'') (MonthNumber 9) = Inr 8
   \<and> calculate_months_difference (MonthName ''January'') (MonthName ''January'') = Inr 12
   \<and> month_denotes (MonthNumber 1) 1 \<and> month_denotes (MonthName ''september'') 9
   \<and> calculate_months_difference (MonthNumber 1) (MonthName ''september'') = Inr 8
   \<and> calculate_months_difference (MonthNumber 9) (MonthNumber 1) = Inr 4"
proof -
  have v1: "month_denotes (MonthName ''January'') 1"
    by (simp add: month_denotes_def month_table_def lower_char_def ascii_upper_def
        ascii_lower_def)
  have v2: "month_denotes (MonthNumber 9) 9" by (simp add: month_denotes_def)
  have v3: "month_denotes (MonthNumber 1) 1" by (simp add: month_denotes_def)
  have v4: "month_denotes (MonthName ''september'') 9"
    by (simp add: month_denotes_def month_table_def lower_char_def ascii_upper_def
        ascii_lower_def)
  from months_difference_spec [OF v1 v2] months_difference_spec [OF v3 v4]
    months_difference_spec [OF v2 v3] v1 v2 v3 v4
  show ?thesis by simp
qed

subsection \<open>Extrapolation\<close>

text \<open>
  Claim C3. For a non-empty list \<open>values\<close> and any target length \<open>len\<close>: when
  \<open>len \<le> length values\<close> the list is returned unchanged (it is never truncated); when
  \<open>length values < len\<close> the result is the list followed by \<open>len - length values + 1\<close>
  copies of its last element, so the result has length \<open>len + 1\<close>.
\<close>

theorem extrapolate_array_spec:
  assumes "values \<noteq> []"
  shows "extrapolate_array values len =
           Inr (if len \<le> int (length values) then values
                else values @ replicate (nat (len - int (length values) + 1)) (last values))
         \<and> (int (length values) < len \<longrightarrow>
              (\<exists>r. extrapolate_array values len = Inr r \<and> int (length r) = len + 1))"
  using assms by (cases "values") (auto simp: extrapolate_array_def)

theorem extrapolate_array_spec_witness:
  "[1, 2 :: real] \<noteq> [] \<and> int (length [1, 2 :: real]) < 5
   \<and> extrapolate_array [1, 2 :: real] 5 = Inr [1, 2, 2, 2, 2, 2]
   \<and> (\<exists>r. extrapolate_array [1, 2 :: real] 5 = Inr r \<and> int (length r) = 5 + 1)"
proof -
  have h: "[1, 2 :: real] \<noteq> []" by simp
  have r: "replicate (nat 4) (2 :: real) = [2, 2, 2, 2]" by (simp add: numeral_eq_Suc)
  from extrapolate_array_spec [OF h, of 5] r show ?thesis by simp
qed

text \<open>
  The empty list does not fail for every target length: with target length 0 the guard
  \<open>len(arr) < length\<close> is false, \<open>arr[-1]\<close> is not evaluated and the empty list comes back.
\<close>

theorem extrapolate_array_empty_no_error: "extrapolate_array ([] :: real list) 0 = Inr []"
  by (simp add: extrapolate_array_def)

text \<open>
  Claim C9, as the code has it. On the empty list \<open>extrapolate_array\<close> raises
  \<open>IndexError\<close> for every target length of at least 1; for a target length of zero or
  below the empty list is returned unchanged. On a non-empty list it returns normally
  for every target length.
\<close>

theorem extrapolate_array_errors:
  "(0 < len1 \<longrightarrow> extrapolate_array ([] :: 'a list) len1 = Inl IndexError)
   \<and> (len2 \<le> 0 \<longrightarrow> extrapolate_array ([] :: 'a list) len2 = Inr [])
   \<and> (values \<noteq> [] \<longrightarrow> (\<exists>r. extrapolate_array values len = Inr r))"
  by (cases "values") (auto simp: extrapolate_array_def)

theorem extrapolate_array_errors_witness:
  "(0 :: int) < 31 \<and> extrapolate_array ([] :: real list) 31 = Inl IndexError
   \<and> (0 :: int) \<le> 0 \<and> extrapolate_array ([] :: real list) 0 = Inr []
   \<and> [7 :: real] \<noteq> [] \<and> (\<exists>r. extrapolate_array [7 :: real] 31 = Inr r)"
  using extrapolate_array_errors [of 31 0 "[7 :: real]" 31] by simp

section \<open>Per-month formulas\<close>

text \<open>
  Claim C5. Without a cap and for a fixed \<open>rpi\<close>, the annual interest rate is
  monotonically non-decreasing in the salary; it is exactly \<open>rpi\<close> for every salary at or
  below 27295 and exactly \<open>rpi + 3\<close> for every salary at or above 49130.
\<close>

theorem annual_interest_rate_spec:
  "(s1 \<le> s2 \<longrightarrow> calculate_annual_interest_rate s1 rpi None
                  \<le> calculate_annual_interest_rate s2 rpi None)
   \<and> (lo \<le> 27295 \<longrightarrow> calculate_annual_interest_rate lo rpi None = rpi)
   \<and> (49130 \<le> hi \<longrightarrow> calculate_annual_interest_rate hi rpi None = rpi + 3)"
  by (auto simp: calculate_annual_interest_rate_def LOWER_INCOME_THRESHOLD_def
      UPPER_INCOME_THRESHOLD_def INTEREST_PREMIUM_def min_def divide_simps)

theorem annual_interest_rate_spec_witness:
  "(30000 :: real) \<le> 40000
   \<and> calculate_annual_interest_rate 30000 2 None \<le> calculate_annual_interest_rate 40000 2 None
   \<and> (20000 :: real) \<le> 27295 \<and> calculate_annual_interest_rate 20000 2 None = 2
   \<and> (49130 :: real) \<le> 60000 \<and> calculate_annual_interest_rate 60000 2 None = 2 + 3"
  using annual_interest_rate_spec [of 30000 40000 2 20000 60000] by simp

text \<open>
  Claim C6. The monthly installment is \<open>max 0 (monthly_salary - 27295 / 12) * 9 / 100\<close>:
  exactly zero for every monthly salary at or below \<open>27295 / 12\<close>, and linear with slope
  \<open>9 / 100\<close> above that threshold.
\<close>

theorem monthly_installment_spec:
  "calculate_monthly_installment ms = max 0 (ms - 27295 / 12) * 9 / 100
   \<and> (lo \<le> 27295 / 12 \<longrightarrow> calculate_monthly_installment lo = 0)
   \<and> (27295 / 12 \<le> hi \<longrightarrow> calculate_monthly_installment hi = 9 / 100 * (hi - 27295 / 12))"
  by (auto simp: calculate_monthly_installment_def LOWER_INCOME_THRESHOLD_def
      STUDENT_TAX_def max_def)

theorem monthly_installment_spec_witness:
  "(2000 :: real) \<le> 27295 / 12 \<and> calculate_monthly_installment 2000 = 0
   \<and> (27295 :: real) / 12 \<le> 2500
   \<and> calculate_monthly_installment 2500 = 9 / 100 * (2500 - 27295 / 12)"
  using monthly_installment_spec [of 2000 2000 2500] by simp

section \<open>Annual to monthly series\<close>

lemma length_concat_replicate:
  "length (concat (map (\<lambda>v. replicate k (f v)) xs)) = k * length xs"
  by (induction xs) auto

lemma length_monthly_layout:
  "length (monthly_layout months first rest) = nat months + 12 * length rest"
  by (simp add: monthly_layout_def length_concat_replicate)

lemma annual_rates_loop_map:
  "(\<forall>i \<in> set is. i < length sal \<and> i < length rpi) \<Longrightarrow>
   annual_rates_loop sal rpi is acc
     = Inr (acc @ map (\<lambda>i. calculate_annual_interest_rate (sal ! i) (rpi ! i) None) is)"
  by (induction "is" arbitrary: acc) auto

lemma extrapolate_array_31:
  assumes "values \<noteq> []"
  shows "\<exists>r. extrapolate_array values (RELIEF_PERDIOD + 1) = Inr r \<and> 31 \<le> length r
            \<and> (31 \<le> length values \<longrightarrow> r = values)"
  using assms by (cases "values") (auto simp: extrapolate_array_def RELIEF_PERDIOD_def)

lemma salary_array_returns:
  assumes "annual_salaries \<noteq> []"
    and "calculate_months_difference current_month salary_revision_month = Inr d"
  shows "\<exists>sal'. get_monthly_salary_array annual_salaries current_month salary_revision_month
                  = Inr (monthly_layout d (hd sal') (tl sal'), sal')
               \<and> length sal' = max 31 (length annual_salaries)"
proof (cases "int (length annual_salaries) < RELIEF_PERDIOD + 1")
  case True
  let ?s = "annual_salaries
            @ replicate (nat (RELIEF_PERDIOD - int (length annual_salaries) + 1))
                (last annual_salaries)"
  from assms(1) obtain a as where a: "annual_salaries = a # as" by (cases annual_salaries) auto
  have "?s \<noteq> []" using assms(1) by simp
  then obtain b bs where s: "?s = b # bs" by (cases ?s) auto
  have len: "length ?s = 31" using True by (simp add: RELIEF_PERDIOD_def)
  have "get_monthly_salary_array annual_salaries current_month salary_revision_month
          = Inr (monthly_layout d (hd ?s) (tl ?s), ?s)"
    unfolding get_monthly_salary_array_def using True assms(2) a s
    by (simp del: replicate.simps)
  moreover have "length ?s = max 31 (length annual_salaries)"
    using len True by (simp add: RELIEF_PERDIOD_def)
  ultimately show ?thesis by blast
next
  case False
  from assms(1) obtain a as where a: "annual_salaries = a # as" by (cases annual_salaries) auto
  have "get_monthly_salary_array annual_salaries current_month salary_revision_month
          = Inr (monthly_layout d (hd annual_salaries) (tl annual_salaries), annual_salaries)"
    unfolding get_monthly_salary_array_def using False assms(2) a by simp
  moreover have "length annual_salaries = max 31 (length annual_salaries)"
    using False by (simp add: RELIEF_PERDIOD_def)
  ultimately show ?thesis by blast
qed

lemma interest_rate_array_returns:
  assumes "annual_salaries \<noteq> []" "annual_rpis \<noteq> []"
    and "calculate_months_difference current_month (MonthName ''september'') = Inr d"
  shows "\<exists>rates sal' rpi'. get_monthly_interest_rate_array annual_salaries annual_rpis current_month
                  = Inr (monthly_layout d (hd rates) (tl rates), sal', rpi')
               \<and> length rates = 31
               \<and> rates = map (\<lambda>i. calculate_annual_interest_rate (sal' ! i) (rpi' ! i) None) [0 ..< 31]
               \<and> extrapolate_array annual_salaries 31 = Inr sal'
               \<and> extrapolate_array annual_rpis 31 = Inr rpi'"
proof -
  from extrapolate_array_31 [OF assms(1)] obtain sal'
    where sal: "extrapolate_array annual_salaries (RELIEF_PERDIOD + 1) = Inr sal'" "31 \<le> length sal'"
    by blast
  from extrapolate_array_31 [OF assms(2)] obtain rpi'
    where rpi: "extrapolate_array annual_rpis (RELIEF_PERDIOD + 1) = Inr rpi'" "31 \<le> length rpi'"
    by blast
  let ?rates = "map (\<lambda>i. calculate_annual_interest_rate (sal' ! i) (rpi' ! i) None) [0 ..< 31]"
  have n: "nat (RELIEF_PERDIOD + 1) = 31" by (simp add: RELIEF_PERDIOD_def)
  have "\<forall>i \<in> set [0 ..< 31]. i < length sal' \<and> i < length rpi'"
    using sal(2) rpi(2) by auto
  from annual_rates_loop_map [OF this, of "[]"]
  have loop: "annual_rates_loop sal' rpi' [0 ..< 31] [] = Inr ?rates" by simp
  have len: "length ?rates = 31" by simp
  then obtain r0 rest where r: "?rates = r0 # rest" by (cases ?rates) auto
  have "get_monthly_interest_rate_array annual_salaries annual_rpis current_month
          = Inr (monthly_layout d (hd ?rates) (tl ?rates), sal', rpi')"
    unfolding get_monthly_interest_rate_array_def
    using sal(1) rpi(1) loop assms(3) r by (simp add: n)
  moreover have "extrapolate_array annual_salaries 31 = Inr sal'" "extrapolate_array annual_rpis 31 = Inr rpi'"
    using sal(1) rpi(1) by (simp_all add: RELIEF_PERDIOD_def)
  ultimately show ?thesis using len by blast
qed

text \<open>
  Claim C4. For non-empty annual salary and RPI lists and valid month references, both
  \<open>get_monthly_salary_array\<close> and \<open>get_monthly_interest_rate_array\<close> return, and each
  monthly series has at least 360 entries: a leading block of as many entries as
  \<open>calculate_months_difference\<close> gives (between 1 and 12) followed by one block of 12
  entries for every later year. The rate series has exactly \<open>to_sept + 360\<close> entries, the
  salary series exactly \<open>to_review + 360\<close> when at most 31 annual salaries are supplied.
\<close>

theorem monthly_arrays_length:
  assumes "annual_salaries \<noteq> []" "annual_rpis \<noteq> []"
    and "valid_month current_month" "valid_month salary_revision_month"
  shows "\<exists>to_review to_sept monthly_salaries sal' rates monthly_rates sal'' rpi'.
           calculate_months_difference current_month salary_revision_month = Inr to_review
         \<and> 1 \<le> to_review \<and> to_review \<le> 12
         \<and> calculate_months_difference current_month (MonthName ''september'') = Inr to_sept
         \<and> 1 \<le> to_sept \<and> to_sept \<le> 12
         \<and> get_monthly_salary_array annual_salaries current_month salary_revision_month
             = Inr (monthly_salaries, sal')
         \<and> get_monthly_interest_rate_array annual_salaries annual_rpis current_month
             = Inr (monthly_rates, sal'', rpi')
         \<and> monthly_salaries
             = replicate (nat to_review) (hd sal' / 12)
               @ concat (map (\<lambda>v. replicate 12 (v / 12)) (tl sal'))
         \<and> rates = map (\<lambda>i. calculate_annual_interest_rate (sal'' ! i) (rpi' ! i) None) [0 ..< 31]
         \<and> length rates = 31
         \<and> monthly_rates
             = replicate (nat to_sept) (hd rates / 12)
               @ concat (map (\<lambda>v. replicate 12 (v / 12)) (tl rates))
         \<and> length sal' = max 31 (length annual_salaries)
         \<and> length monthly_salaries = nat to_review + 12 * (length sal' - 1)
         \<and> length monthly_rates = nat to_sept + 360
         \<and> 360 \<le> length monthly_salaries \<and> 360 \<le> length monthly_rates
         \<and> (length annual_salaries \<le> 31 \<longrightarrow> length monthly_salaries = nat to_review + 360)"
proof -
  from months_difference_valid [OF assms(3,4)] obtain dr
    where dr: "calculate_months_difference current_month salary_revision_month = Inr dr"
      "1 \<le> dr" "dr \<le> 12" by blast
  from months_difference_valid [OF assms(3) valid_september] obtain ds
    where ds: "calculate_months_difference current_month (MonthName ''september'') = Inr ds"
      "1 \<le> ds" "ds \<le> 12" by blast
  from salary_array_returns [OF assms(1) dr(1)] obtain sal'
    where sal: "get_monthly_salary_array annual_salaries current_month salary_revision_month
                  = Inr (monthly_layout dr (hd sal') (tl sal'), sal')"
      "length sal' = max 31 (length annual_salaries)" by blast
  from interest_rate_array_returns [OF assms(1,2) ds(1)] obtain rates sal'' rpi'
    where rt: "get_monthly_interest_rate_array annual_salaries annual_rpis current_month
                  = Inr (monthly_layout ds (hd rates) (tl rates), sal'', rpi')"
      "length rates = 31"
      "rates = map (\<lambda>i. calculate_annual_interest_rate (sal'' ! i) (rpi' ! i) None) [0 ..< 31]"
      by blast
  let ?ms = "monthly_layout dr (hd sal') (tl sal')"
  let ?mr = "monthly_layout ds (hd rates) (tl rates)"
  have l1: "length ?ms = nat dr + 12 * (length sal' - 1)"
    by (simp add: length_monthly_layout)
  have l2: "length ?mr = nat ds + 360"
    using rt(2) by (simp add: length_monthly_layout)
  have l3: "360 \<le> length ?ms" using l1 sal(2) by simp
  have l4: "length annual_salaries \<le> 31 \<longrightarrow> length ?ms = nat dr + 360"
    using l1 sal(2) by simp
  have e1: "?ms = replicate (nat dr) (hd sal' / 12)
               @ concat (map (\<lambda>v. replicate 12 (v / 12)) (tl sal'))"
    by (simp add: monthly_layout_def)
  have e2: "?mr = replicate (nat ds) (hd rates / 12)
               @ concat (map (\<lambda>v. replicate 12 (v / 12)) (tl rates))"
    by (simp add: monthly_layout_def)
  have l5: "360 \<le> length ?mr" using l2 by simp
  show ?thesis
    using dr ds sal rt e1 e2 l1 l2 l3 l4 l5 by blast
qed

theorem monthly_arrays_length_witness:
  "[30000 :: real] \<noteq> [] \<and> [2 :: real] \<noteq> [] \<and> valid_month (MonthNumber 1)
   \<and> valid_month (MonthName ''april'') \<and> length [30000 :: real] \<le> 31
   \<and> (\<exists>monthly_salaries sal' monthly_rates sal'' rpi'.
         get_monthly_salary_array [30000] (MonthNumber 1) (MonthName ''april'')
           = Inr (monthly_salaries, sal')
       \<and> get_monthly_interest_rate_array [30000] [2] (MonthNumber 1)
           = Inr (monthly_rates, sal'', rpi')
       \<and> 360 \<le> length monthly_salaries \<and> 360 \<le> length monthly_rates)"
proof -
  have h1: "[30000 :: real] \<noteq> []" and h2: "[2 :: real] \<noteq> []" by simp_all
  from monthly_arrays_length [OF h1 h2 valid_number_1 valid_april] valid_number_1 valid_april
  show ?thesis by auto
qed

section \<open>The amortization loop\<close>

lemma sim_loop_append:
  "sim_loop ms rs d (xs @ ys) st
     = (case sim_loop ms rs d xs st of Inl e \<Rightarrow> Inl e | Inr st' \<Rightarrow> sim_loop ms rs d ys st')"
  by (induction xs arbitrary: st) (auto split: sum.splits)

lemma sim_loop_returns:
  "n \<le> length rs \<Longrightarrow> n \<le> length ms \<Longrightarrow> \<exists>st'. sim_loop ms rs d [0 ..< n] st = Inr st'"
proof (induction n)
  case 0
  then show ?case by simp
next
  case (Suc n)
  then obtain st' where "sim_loop ms rs d [0 ..< n] st = Inr st'" by auto
  moreover have "\<exists>st''. sim_step ms rs d n st' = Inr st''"
    using Suc.prems by (simp add: sim_step_def Let_def)
  ultimately show ?case by (auto simp: sim_loop_append)
qed

lemma balance_before_snoc:
  "i \<le> length bs \<Longrightarrow> balance_before loan (bs @ [b]) i = balance_before loan bs i"
  by (auto simp: balance_before_def nth_append)

lemma sim_loop_trace:
  assumes "sim_loop ms rs d [0 ..< n]
             \<lparr> loan_outstanding = loan, monthly_repayments = [],
               monthly_interest = [], monthly_balance = [] \<rparr> = Inr st"
  shows "length (monthly_repayments st) = n \<and> length (monthly_interest st) = n
       \<and> length (monthly_balance st) = n
       \<and> loan_outstanding st = balance_before loan (monthly_balance st) n
       \<and> n \<le> length rs \<and> n \<le> length ms
       \<and> (\<forall>i < n.
            monthly_interest st ! i = balance_before loan (monthly_balance st) i * (rs ! i) / 100
          \<and> monthly_repayments st ! i
              = min (calculate_monthly_installment (ms ! i) + discretionary d i)
                    (balance_before loan (monthly_balance st) i + monthly_interest st ! i)
          \<and> monthly_balance st ! i
              = balance_before loan (monthly_balance st) i + monthly_interest st ! i
                - monthly_repayments st ! i)"
  using assms
proof (induction n arbitrary: st)
  case 0
  then show ?case by (auto simp: balance_before_def)
next
  case (Suc n)
  from Suc.prems obtain st0 where
    st0: "sim_loop ms rs d [0 ..< n]
             \<lparr> loan_outstanding = loan, monthly_repayments = [],
               monthly_interest = [], monthly_balance = [] \<rparr> = Inr st0"
    and step: "sim_step ms rs d n st0 = Inr st"
    by (auto simp: sim_loop_append split: sum.splits)
  note IH = Suc.IH [OF st0]
  from step have rng: "n < length rs" "n < length ms"
    by (auto simp: sim_step_def split: if_splits)
  define interest where "interest = loan_outstanding st0 * (rs ! n) / 100"
  define installment where
    "installment = calculate_monthly_installment (ms ! n) + discretionary d n"
  define repayment where "repayment = min installment (loan_outstanding st0 + interest)"
  define balance where "balance = loan_outstanding st0 + interest - repayment"
  have st: "st = \<lparr> loan_outstanding = balance,
                  monthly_repayments = monthly_repayments st0 @ [repayment],
                  monthly_interest = monthly_interest st0 @ [interest],
                  monthly_balance = monthly_balance st0 @ [balance] \<rparr>"
    using step rng
    by (auto simp: sim_step_def Let_def calculate_monthly_interest_def discretionary_def
        interest_def installment_def repayment_def balance_def split: option.splits)
  have bb: "\<And>i. i \<le> n \<Longrightarrow> balance_before loan (monthly_balance st) i
                              = balance_before loan (monthly_balance st0) i"
    using IH by (simp add: st balance_before_snoc)
  have bn: "balance_before loan (monthly_balance st) (Suc n) = balance"
    using IH by (simp add: st balance_before_def nth_append)
  have lens: "length (monthly_repayments st) = Suc n" "length (monthly_interest st) = Suc n"
    "length (monthly_balance st) = Suc n"
    using IH by (simp_all add: st)
  have old: "\<And>i. i < n \<Longrightarrow> monthly_interest st ! i = monthly_interest st0 ! i
                  \<and> monthly_repayments st ! i = monthly_repayments st0 ! i
                  \<and> monthly_balance st ! i = monthly_balance st0 ! i"
    using IH by (simp add: st nth_append)
  have new: "monthly_interest st ! n = interest" "monthly_repayments st ! n = repayment"
    "monthly_balance st ! n = balance"
    using IH by (simp_all add: st nth_append)
  have cur: "loan_outstanding st0 = balance_before loan (monthly_balance st0) n"
    using IH by simp
  have "monthly_interest st ! i = balance_before loan (monthly_balance st) i * (rs ! i) / 100
          \<and> monthly_repayments st ! i
              = min (calculate_monthly_installment (ms ! i) + discretionary d i)
                    (balance_before loan (monthly_balance st) i + monthly_interest st ! i)
          \<and> monthly_balance st ! i
              = balance_before loan (monthly_balance st) i + monthly_interest st ! i
                - monthly_repayments st ! i" if "i < Suc n" for i
  proof (cases "i < n")
    case True
    with IH old [OF True] bb [of i] show ?thesis by simp
  next
    case False
    with that have "i = n" by simp
    with new bb [of n] cur show ?thesis
      by (simp add: interest_def installment_def repayment_def balance_def)
  qed
  moreover have "loan_outstanding st = balance_before loan (monthly_balance st) (Suc n)"
    using bn by (simp add: st)
  ultimately show ?case using lens rng by auto
qed

lemma simulate_repayment_Inr:
  assumes "simulate_repayment loan rpis sal cm m d = Inr (reps, ints, bals)"
  shows "\<exists>ms sal' rs sal'' rpi' st.
           get_monthly_salary_array sal cm (MonthName ''april'') = Inr (ms, sal')
         \<and> get_monthly_interest_rate_array sal' rpis cm = Inr (rs, sal'', rpi')
         \<and> sim_loop ms rs d [0 ..< nat m]
             \<lparr> loan_outstanding = loan, monthly_repayments = [],
               monthly_interest = [], monthly_balance = [] \<rparr> = Inr st
         \<and> reps = monthly_repayments st \<and> ints = monthly_interest st
         \<and> bals = monthly_balance st"
  using assms unfolding simulate_repayment_def
  by (auto split: sum.splits prod.splits)

lemma simulate_repayment_trace:
  assumes "simulate_repayment loan rpis sal cm m d = Inr (reps, ints, bals)"
  shows "\<exists>ms sal' rs sal'' rpi'.
           get_monthly_salary_array sal cm (MonthName ''april'') = Inr (ms, sal')
         \<and> get_monthly_interest_rate_array sal' rpis cm = Inr (rs, sal'', rpi')
         \<and> length reps = nat m \<and> length ints = nat m \<and> length bals = nat m
         \<and> (\<forall>i < nat m.
              ints ! i = balance_before loan bals i * (rs ! i) / 100
            \<and> reps ! i = min (calculate_monthly_installment (ms ! i) + discretionary d i)
                             (balance_before loan bals i + ints ! i)
            \<and> bals ! i = balance_before loan bals i + ints ! i - reps ! i)"
proof -
  from simulate_repayment_Inr [OF assms] obtain ms sal' rs sal'' rpi' st where
    a: "get_monthly_salary_array sal cm (MonthName ''april'') = Inr (ms, sal')"
    and b: "get_monthly_interest_rate_array sal' rpis cm = Inr (rs, sal'', rpi')"
    and l: "sim_loop ms rs d [0 ..< nat m]
             \<lparr> loan_outstanding = loan, monthly_repayments = [],
               monthly_interest = [], monthly_balance = [] \<rparr> = Inr st"
    and e: "reps = monthly_repayments st" "ints = monthly_interest st"
      "bals = monthly_balance st"
    by blast
  from sim_loop_trace [OF l] a b e show ?thesis by blast
qed

lemma simulate_repayment_returns:
  assumes "annual_salaries \<noteq> []" "annual_rpis \<noteq> []" "valid_month current_month"
    and "months_to_relief \<le> 360"
  shows "\<exists>reps ints bals.
           simulate_repayment loan annual_rpis annual_salaries current_month months_to_relief d
             = Inr (reps, ints, bals)"
proof -
  from months_difference_valid [OF assms(3) valid_april] obtain dr
    where dr: "calculate_months_difference current_month (MonthName ''april'') = Inr dr"
      "1 \<le> dr" by blast
  from months_difference_valid [OF assms(3) valid_september] obtain ds
    where ds: "calculate_months_difference current_month (MonthName ''september'') = Inr ds"
      "1 \<le> ds" by blast
  from salary_array_returns [OF assms(1) dr(1)] obtain sal'
    where sal: "get_monthly_salary_array annual_salaries current_month (MonthName ''april'')
                  = Inr (monthly_layout dr (hd sal') (tl sal'), sal')"
      "length sal' = max 31 (length annual_salaries)" by blast
  from sal(2) have ne: "sal' \<noteq> []" by auto
  from interest_rate_array_returns [OF ne assms(2) ds(1)] obtain rates sal'' rpi'
    where rt: "get_monthly_interest_rate_array sal' annual_rpis current_month
                  = Inr (monthly_layout ds (hd rates) (tl rates), sal'', rpi')"
      "length rates = 31" by blast
  let ?ms = "monthly_layout dr (hd sal') (tl sal')"
  let ?mr = "monthly_layout ds (hd rates) (tl rates)"
  have "nat months_to_relief \<le> length ?ms"
    using assms(4) sal(2) by (simp add: length_monthly_layout)
  moreover have "nat months_to_relief \<le> length ?mr"
    using assms(4) rt(2) by (simp add: length_monthly_layout)
  ultimately obtain st where
    "sim_loop ?ms ?mr d [0 ..< nat months_to_relief]
       \<lparr> loan_outstanding = loan, monthly_repayments = [],
         monthly_interest = [], monthly_balance = [] \<rparr> = Inr st"
    using sim_loop_returns by blast
  with sal(1) rt(1) show ?thesis by (simp add: simulate_repayment_def)
qed

lemma installment_nonneg: "0 \<le> calculate_monthly_installment s"
  by (simp add: calculate_monthly_installment_def STUDENT_TAX_def)

text \<open>
  Claim C1. For every initial balance, non-empty annual salary and RPI lists, valid
  current month, horizon \<open>months_to_relief \<le> 360\<close> and discretionary repayment map,
  \<open>simulate_repayment\<close> returns three lists, each of length \<open>months_to_relief\<close> (the loop
  runs the whole horizon, whatever the balance), where for every month \<open>i\<close> in order the
  interest is \<open>balance * rate / 100\<close>, the repayment is the minimum of the installment
  (the monthly installment of the salary plus the discretionary amount of month \<open>i\<close>, zero
  when absent) and \<open>balance + interest\<close>, and the recorded balance is
  \<open>balance + interest - repayment\<close>; the balance of month \<open>i\<close> is the initial loan for
  \<open>i = 0\<close> and the balance recorded for month \<open>i - 1\<close> otherwise.
\<close>

theorem simulate_repayment_spec:
  assumes "annual_salaries \<noteq> []" "annual_rpis \<noteq> []" "valid_month current_month"
    and "months_to_relief \<le> 360"
  shows "\<exists>monthly_salaries sal' monthly_rates sal'' rpi' repayments interest balance.
           get_monthly_salary_array annual_salaries current_month (MonthName ''april'')
             = Inr (monthly_salaries, sal')
         \<and> get_monthly_interest_rate_array sal' annual_rpis current_month
             = Inr (monthly_rates, sal'', rpi')
         \<and> simulate_repayment loan annual_rpis annual_salaries current_month months_to_relief d
             = Inr (repayments, interest, balance)
         \<and> length repayments = nat months_to_relief
         \<and> length interest = nat months_to_relief
         \<and> length balance = nat months_to_relief
         \<and> (\<forall>i < nat months_to_relief.
              interest ! i = balance_before loan balance i * (monthly_rates ! i) / 100
            \<and> repayments ! i
                = min (calculate_monthly_installment (monthly_salaries ! i) + discretionary d i)
                      (balance_before loan balance i + interest ! i)
            \<and> balance ! i = balance_before loan balance i + interest ! i - repayments ! i)"
proof -
  from simulate_repayment_returns [OF assms] obtain reps ints bals where
    r: "simulate_repayment loan annual_rpis annual_salaries current_month months_to_relief d
          = Inr (reps, ints, bals)" by blast
  from simulate_repayment_trace [OF r] r show ?thesis by blast
qed

theorem simulate_repayment_spec_witness:
  "[30000 :: real] \<noteq> [] \<and> [2 :: real] \<noteq> [] \<and> valid_month (MonthNumber 1) \<and> (3 :: int) \<le> 360
   \<and> (\<exists>monthly_salaries sal' monthly_rates sal'' rpi' repayments interest balance.
           get_monthly_salary_array [30000] (MonthNumber 1) (MonthName ''april'')
             = Inr (monthly_salaries, sal')
         \<and> get_monthly_interest_rate_array sal' [2] (MonthNumber 1)
             = Inr (monthly_rates, sal'', rpi')
         \<and> simulate_repayment 40000 [2] [30000] (MonthNumber 1) 3 Map.empty
             = Inr (repayments, interest, balance)
         \<and> length repayments = nat 3
         \<and> length interest = nat 3
         \<and> length balance = nat 3
         \<and> (\<forall>i < nat 3.
              interest ! i = balance_before 40000 balance i * (monthly_rates ! i) / 100
            \<and> repayments ! i
                = min (calculate_monthly_installment (monthly_salaries ! i)
                       + discretionary Map.empty i)
                      (balance_before 40000 balance i + interest ! i)
            \<and> balance ! i = balance_before 40000 balance i + interest ! i - repayments ! i))"
proof -
  have h1: "[30000 :: real] \<noteq> []" and h2: "[2 :: real] \<noteq> []" and h3: "(3 :: int) \<le> 360"
    by simp_all
  show ?thesis
    by (intro conjI h1 h2 h3 valid_number_1
        simulate_repayment_spec [OF h1 h2 valid_number_1 h3])
qed

text \<open>
  Claim C2. Every balance that \<open>simulate_repayment\<close> records is nonnegative: each new
  balance equals \<open>max (balance + interest - installment) 0\<close>, where the installment
  includes the discretionary amount of the month. This holds for every initial balance,
  every discretionary map and all salaries and rates, negative rates included.
\<close>

theorem balance_never_negative:
  assumes "simulate_repayment loan rpis sal cm m d = Inr (reps, ints, bals)"
  shows "(\<forall>b \<in> set bals. 0 \<le> b)
       \<and> (\<exists>ms sal'. get_monthly_salary_array sal cm (MonthName ''april'') = Inr (ms, sal')
            \<and> (\<forall>i < length bals.
                 bals ! i = max (balance_before loan bals i + ints ! i
                                 - (calculate_monthly_installment (ms ! i) + discretionary d i)) 0))"
proof -
  from simulate_repayment_trace [OF assms] obtain ms sal' rs where
    a: "get_monthly_salary_array sal cm (MonthName ''april'') = Inr (ms, sal')"
    and len: "length bals = nat m"
    and tr: "\<forall>i < nat m.
              ints ! i = balance_before loan bals i * (rs ! i) / 100
            \<and> reps ! i = min (calculate_monthly_installment (ms ! i) + discretionary d i)
                             (balance_before loan bals i + ints ! i)
            \<and> bals ! i = balance_before loan bals i + ints ! i - reps ! i"
    by blast
  have mx: "bals ! i = max (balance_before loan bals i + ints ! i
                            - (calculate_monthly_installment (ms ! i) + discretionary d i)) 0"
    if "i < length bals" for i
  proof -
    from that len tr have
      "reps ! i = min (calculate_monthly_installment (ms ! i) + discretionary d i)
                      (balance_before loan bals i + ints ! i)"
      "bals ! i = balance_before loan bals i + ints ! i - reps ! i" by auto
    then show ?thesis by (simp add: min_def max_def)
  qed
  have "0 \<le> b" if "b \<in> set bals" for b
  proof -
    from that obtain i where "i < length bals" "b = bals ! i" by (auto simp: in_set_conv_nth)
    with mx [of i] show ?thesis by simp
  qed
  with mx a show ?thesis by blast
qed

theorem balance_never_negative_witness:
  "simulate_repayment 1000 [- 2400] [20000] (MonthNumber 1) 2 Map.empty
     = Inr ([- 1000, 0], [- 2000, 0], [0, 0])
   \<and> (0 :: real) \<le> [0, 0] ! 0 \<and> (0 :: real) \<le> [0, 0] ! 1"
proof -
  have e: "simulate_repayment 1000 [- 2400] [20000] (MonthNumber 1) 2 Map.empty
             = Inr ([- 1000, 0], [- 2000, 0], [0, 0])"
    by code_simp
  from balance_never_negative [OF e] have b: "\<forall>b \<in> set [0, 0 :: real]. 0 \<le> b"
    by (rule conjunct1)
  have m: "[0, 0 :: real] ! 0 \<in> set [0, 0]" "[0, 0 :: real] ! 1 \<in> set [0, 0]" by simp_all
  from b m have "(0 :: real) \<le> [0, 0] ! 0" "(0 :: real) \<le> [0, 0] ! 1" by blast+
  with e show ?thesis by blast
qed

text \<open>
  A negative discretionary amount and the repayment cap: with
  balance 100, installment 180 and the entry \<open>0 \<mapsto> - 100\<close> the cap is inactive in the run
  with the entry (80 is at most 100.25) but active in the run without it, and the
  repayments of month 0 are 80 and 100.25, which do not differ by \<open>- 100\<close>.
\<close>

theorem discretionary_negative_amount:
  "simulate_repayment 100 [0] [51295] (MonthNumber 1) 1 Map.empty
     = Inr ([401 / 4], [1 / 4], [0])
   \<and> simulate_repayment 100 [0] [51295] (MonthNumber 1) 1 (Map.empty(0 \<mapsto> - 100))
     = Inr ([80], [1 / 4], [81 / 4])
   \<and> calculate_monthly_installment
       (fst (projr (get_monthly_salary_array [51295] (MonthNumber 1) (MonthName ''april''))) ! 0)
       + (- 100) \<le> 100 + 1 / 4
   \<and> (80 :: real) \<noteq> 401 / 4 + (- 100)"
  by code_simp

text \<open>
  Claim C7, as the code has it. Take a run whose discretionary map has no entry for month
  \<open>k < months_to_relief\<close> and the run that differs only by the added entry \<open>k \<mapsto> X\<close>. If the
  repayment cap is inactive at month \<open>k\<close> in the run with the entry, and either \<open>X\<close> is
  nonnegative or the cap is inactive at month \<open>k\<close> in the run without the entry as well,
  then the repayment of month \<open>k\<close> with the entry is the one without it plus exactly \<open>X\<close>,
  and everything recorded for the months before \<open>k\<close> is the same in both runs.
\<close>

theorem discretionary_repayment_effect:
  assumes run0: "simulate_repayment loan rpis sal cm m d = Inr (reps, ints, bals)"
    and run1: "simulate_repayment loan rpis sal cm m (d(k \<mapsto> X)) = Inr (reps', ints', bals')"
    and key: "d k = None" and k: "k < nat m"
    and sal: "get_monthly_salary_array sal cm (MonthName ''april'') = Inr (ms, sal')"
    and cap1: "calculate_monthly_installment (ms ! k) + X
                 \<le> balance_before loan bals' k + ints' ! k"
    and cap0: "0 \<le> X \<or> calculate_monthly_installment (ms ! k)
                 \<le> balance_before loan bals k + ints ! k"
  shows "reps' ! k = reps ! k + X
       \<and> (\<forall>i < k. reps' ! i = reps ! i \<and> ints' ! i = ints ! i \<and> bals' ! i = bals ! i)"
proof -
  from simulate_repayment_trace [OF run0] sal obtain rs sal'' rpi' where
    rs: "get_monthly_interest_rate_array sal' rpis cm = Inr (rs, sal'', rpi')"
    and tr0: "\<forall>i < nat m.
              ints ! i = balance_before loan bals i * (rs ! i) / 100
            \<and> reps ! i = min (calculate_monthly_installment (ms ! i) + discretionary d i)
                             (balance_before loan bals i + ints ! i)
            \<and> bals ! i = balance_before loan bals i + ints ! i - reps ! i"
    by auto
  from simulate_repayment_trace [OF run1] sal rs have
    tr1: "\<forall>i < nat m.
              ints' ! i = balance_before loan bals' i * (rs ! i) / 100
            \<and> reps' ! i = min (calculate_monthly_installment (ms ! i)
                                + discretionary (d(k \<mapsto> X)) i)
                              (balance_before loan bals' i + ints' ! i)
            \<and> bals' ! i = balance_before loan bals' i + ints' ! i - reps' ! i"
    by auto
  have d0: "discretionary d k = 0" using key by (simp add: discretionary_def)
  have d1: "discretionary (d(k \<mapsto> X)) k = X" by (simp add: discretionary_def)
  have dsame: "discretionary (d(k \<mapsto> X)) i = discretionary d i" if "i \<noteq> k" for i
    using that by (simp add: discretionary_def)
  have month: "reps' ! i = reps ! i \<and> ints' ! i = ints ! i \<and> bals' ! i = bals ! i"
    if lt: "i < k" and bb: "balance_before loan bals' i = balance_before loan bals i" for i
  proof -
    from lt k have im: "i < nat m" and ik: "i \<noteq> k" by simp_all
    from tr0 im have i0: "ints ! i = balance_before loan bals i * (rs ! i) / 100"
      and r0: "reps ! i = min (calculate_monthly_installment (ms ! i) + discretionary d i)
                             (balance_before loan bals i + ints ! i)"
      and b0: "bals ! i = balance_before loan bals i + ints ! i - reps ! i" by blast+
    from tr1 im have i1: "ints' ! i = balance_before loan bals' i * (rs ! i) / 100"
      and r1: "reps' ! i = min (calculate_monthly_installment (ms ! i)
                                + discretionary (d(k \<mapsto> X)) i)
                              (balance_before loan bals' i + ints' ! i)"
      and b1: "bals' ! i = balance_before loan bals' i + ints' ! i - reps' ! i" by blast+
    have ie: "ints' ! i = ints ! i" by (simp only: i0 i1 bb)
    have re: "reps' ! i = reps ! i" using r0 r1 by (simp only: bb ie dsame [OF ik])
    have be: "bals' ! i = bals ! i" using b0 b1 by (simp only: bb ie re)
    from ie re be show ?thesis by blast
  qed
  have same: "i < k \<Longrightarrow> reps' ! i = reps ! i \<and> ints' ! i = ints ! i \<and> bals' ! i = bals ! i"
    for i
  proof (induction i)
    case 0
    have "balance_before loan bals' 0 = balance_before loan bals 0"
      by (simp add: balance_before_def)
    with 0 month show ?case by blast
  next
    case (Suc i)
    then have "bals' ! i = bals ! i" by simp
    then have "balance_before loan bals' (Suc i) = balance_before loan bals (Suc i)"
      by (simp add: balance_before_def)
    with Suc.prems month show ?case by blast
  qed
  have bk: "balance_before loan bals' k = balance_before loan bals k"
  proof (cases k)
    case 0
    then show ?thesis by (simp add: balance_before_def)
  next
    case (Suc j)
    with same [of j] show ?thesis by (simp add: balance_before_def)
  qed
  from tr0 k have i0: "ints ! k = balance_before loan bals k * (rs ! k) / 100"
    and r0: "reps ! k = min (calculate_monthly_installment (ms ! k) + discretionary d k)
                           (balance_before loan bals k + ints ! k)" by blast+
  from tr1 k have i1: "ints' ! k = balance_before loan bals' k * (rs ! k) / 100"
    and r1: "reps' ! k = min (calculate_monthly_installment (ms ! k)
                              + discretionary (d(k \<mapsto> X)) k)
                            (balance_before loan bals' k + ints' ! k)" by blast+
  have ik: "ints' ! k = ints ! k" by (simp only: i0 i1 bk)
  from r1 cap1 have r1': "reps' ! k = calculate_monthly_installment (ms ! k) + X"
    by (simp add: d1)
  from cap0 cap1 have "calculate_monthly_installment (ms ! k)
                 \<le> balance_before loan bals k + ints ! k"
    by (auto simp: bk ik)
  with r0 have r0': "reps ! k = calculate_monthly_installment (ms ! k)"
    by (simp add: d0)
  from r0' r1' same show ?thesis by simp
qed

theorem discretionary_repayment_effect_witness:
  "\<exists>reps ints bals reps' ints' bals' ms sal'.
      simulate_repayment 40000 [2] [30000] (MonthNumber 1) 2 Map.empty = Inr (reps, ints, bals)
    \<and> simulate_repayment 40000 [2] [30000] (MonthNumber 1) 2 (Map.empty(1 \<mapsto> 500))
        = Inr (reps', ints', bals')
    \<and> get_monthly_salary_array [30000] (MonthNumber 1) (MonthName ''april'') = Inr (ms, sal')
    \<and> calculate_monthly_installment (ms ! 1) + 500 \<le> balance_before 40000 bals' 1 + ints' ! 1
    \<and> reps' ! 1 = reps ! 1 + 500
    \<and> reps' ! 0 = reps ! 0 \<and> ints' ! 0 = ints ! 0 \<and> bals' ! 0 = bals ! 0"
proof -
  have h: "[30000 :: real] \<noteq> []" "[2 :: real] \<noteq> []" "(2 :: int) \<le> 360" by simp_all
  from simulate_repayment_returns [OF h(1,2) valid_number_1 h(3)] obtain reps ints bals where
    e0: "simulate_repayment 40000 [2] [30000] (MonthNumber 1) 2 Map.empty
           = Inr (reps, ints, bals)" by blast
  from simulate_repayment_returns [OF h(1,2) valid_number_1 h(3)] obtain reps' ints' bals' where
    e1: "simulate_repayment 40000 [2] [30000] (MonthNumber 1) 2 (Map.empty(1 \<mapsto> 500))
           = Inr (reps', ints', bals')" by blast
  from simulate_repayment_trace [OF e0] obtain ms sal' where
    es: "get_monthly_salary_array [30000] (MonthNumber 1) (MonthName ''april'') = Inr (ms, sal')"
    by blast
  have "calculate_monthly_installment
          (fst (projr (get_monthly_salary_array [30000] (MonthNumber 1) (MonthName ''april''))) ! 1)
        + 500
        \<le> balance_before 40000
            (snd (snd (projr (simulate_repayment 40000 [2] [30000] (MonthNumber 1) 2
                                (Map.empty(1 \<mapsto> 500)))))) 1
          + fst (snd (projr (simulate_repayment 40000 [2] [30000] (MonthNumber 1) 2
                               (Map.empty(1 \<mapsto> 500))))) ! 1"
    by code_simp
  then have cap: "calculate_monthly_installment (ms ! 1) + 500
                    \<le> balance_before 40000 bals' 1 + ints' ! 1"
    by (simp only: e1 es sum.sel fst_conv snd_conv)
  have key: "(Map.empty :: nat \<rightharpoonup> real) 1 = None" by simp
  have k: "(1 :: nat) < nat 2" by simp
  have x: "(0 :: real) \<le> 500 \<or> calculate_monthly_installment (ms ! 1)
                 \<le> balance_before 40000 bals 1 + ints ! 1"
    by simp
  note th = discretionary_repayment_effect [OF e0 e1 key k es cap x]
  from th have r: "reps' ! 1 = reps ! 1 + 500" by blast
  from th have z: "reps' ! 0 = reps ! 0" "ints' ! 0 = ints ! 0" "bals' ! 0 = bals ! 0"
    by simp_all
  from e0 e1 es cap r z show ?thesis by blast
qed

text \<open>
  Claim C10. Zero is an absorbing state of the loop: if the balance recorded for some
  month \<open>k\<close> is exactly 0 and every discretionary amount of a later month is nonnegative,
  then for every later month the recorded interest, repayment and balance are all 0,
  whatever the rates and salaries of those months.
\<close>

theorem zero_balance_absorbing:
  assumes "simulate_repayment loan rpis sal cm m d = Inr (reps, ints, bals)"
    and "k < length bals" "bals ! k = 0"
    and "\<forall>j x. k < j \<and> d j = Some x \<longrightarrow> 0 \<le> x"
  shows "\<forall>j. k < j \<and> j < length bals \<longrightarrow> ints ! j = 0 \<and> reps ! j = 0 \<and> bals ! j = 0"
proof -
  from simulate_repayment_trace [OF assms(1)] obtain ms rs where
    len: "length bals = nat m"
    and tr: "\<forall>i < nat m.
              ints ! i = balance_before loan bals i * (rs ! i) / 100
            \<and> reps ! i = min (calculate_monthly_installment (ms ! i) + discretionary d i)
                             (balance_before loan bals i + ints ! i)
            \<and> bals ! i = balance_before loan bals i + ints ! i - reps ! i"
    by blast
  have disc: "0 \<le> discretionary d j" if "k < j" for j
    using assms(4) that by (auto simp: discretionary_def split: option.splits)
  have "k < j \<Longrightarrow> j < length bals \<Longrightarrow> ints ! j = 0 \<and> reps ! j = 0 \<and> bals ! j = 0" for j
  proof (induction j)
    case 0
    then show ?case by simp
  next
    case (Suc j)
    have prev: "balance_before loan bals (Suc j) = 0"
    proof (cases "j = k")
      case True
      with assms(3) show ?thesis by (simp add: balance_before_def)
    next
      case False
      with Suc.prems have "k < j" "j < length bals" by simp_all
      with Suc.IH show ?thesis by (simp add: balance_before_def)
    qed
    from Suc.prems len tr have
      i: "ints ! Suc j = balance_before loan bals (Suc j) * (rs ! Suc j) / 100"
      and r: "reps ! Suc j
                = min (calculate_monthly_installment (ms ! Suc j) + discretionary d (Suc j))
                      (balance_before loan bals (Suc j) + ints ! Suc j)"
      and b: "bals ! Suc j = balance_before loan bals (Suc j) + ints ! Suc j - reps ! Suc j"
      by auto
    from i prev have i0: "ints ! Suc j = 0" by simp
    have "0 \<le> calculate_monthly_installment (ms ! Suc j) + discretionary d (Suc j)"
      using installment_nonneg disc [OF Suc.prems(1)] by (simp add: add_nonneg_nonneg)
    with r prev i0 have r0: "reps ! Suc j = 0" by simp
    with b prev i0 show ?case by simp
  qed
  then show ?thesis by blast
qed

theorem zero_balance_absorbing_witness:
  "simulate_repayment 100 [12] [20000] (MonthNumber 1) 3 (Map.empty(0 \<mapsto> 1000))
     = Inr ([101, 0, 0], [1, 0, 0], [0, 0, 0])
   \<and> (0 :: nat) < length [0, 0, 0 :: real] \<and> [0, 0, 0 :: real] ! 0 = 0
   \<and> (Map.empty(0 \<mapsto> 1000 :: real)) (1 :: nat) = None
   \<and> (Map.empty(0 \<mapsto> 1000 :: real)) (2 :: nat) = None
   \<and> [1, 0, 0 :: real] ! 2 = 0 \<and> [101, 0, 0 :: real] ! 2 = 0 \<and> [0, 0, 0 :: real] ! 2 = 0"
proof -
  have e: "simulate_repayment 100 [12] [20000] (MonthNumber 1) 3 (Map.empty(0 \<mapsto> 1000))
             = Inr ([101, 0, 0], [1, 0, 0], [0, 0, 0])"
    by code_simp
  have k: "(0 :: nat) < length [0, 0, 0 :: real]" and z: "[0, 0, 0 :: real] ! 0 = 0"
    by simp_all
  have d: "\<forall>j x. (0 :: nat) < j \<and> (Map.empty(0 \<mapsto> 1000 :: real)) j = Some x \<longrightarrow> 0 \<le> x"
    by simp
  have n: "(Map.empty(0 \<mapsto> 1000 :: real)) (1 :: nat) = None"
    "(Map.empty(0 \<mapsto> 1000 :: real)) (2 :: nat) = None" by simp_all
  have j: "(0 :: nat) < 2 \<and> 2 < length [0, 0, 0 :: real]" by simp
  have c: "[1, 0, 0 :: real] ! 2 = 0 \<and> [101, 0, 0 :: real] ! 2 = 0 \<and> [0, 0, 0 :: real] ! 2 = 0"
    by (rule zero_balance_absorbing [OF e k z d, rule_format, OF j])
  show ?thesis
    by (intro conjI e k z n c [THEN conjunct1] c [THEN conjunct2, THEN conjunct1]
        c [THEN conjunct2, THEN conjunct2])
qed

end
